theory Spec2Isabelle
  imports Complex_Main
begin

section \<open>The Book aggregate of the book-review service\<close>

text \<open>
  A shallow embedding of the book model (the schema file defining \<open>reviewSchema\<close> and
  \<open>bookSchema\<close>), of \<open>controllers/book.controller.js\<close> and of the book router.

  Conventions of the embedding.
  \<^item> A JavaScript \<open>Number\<close> is a \<open>real\<close>: sums and the quotient of \<open>updateRating\<close> are the
    real-valued ones. The code computes in IEEE doubles and stores the double nearest to
    the quotient, which is not represented; nothing below states what the value of a
    quotient is in the code, only that the stored fields are the recomputed ones.
  \<^item> An \<open>ObjectId\<close> is a natural number. A document or subdocument takes its \<open>_id\<close> from
    the request body when the body has one; otherwise the driver draws a new id, one that
    is in use nowhere. The embedding draws new ids from the counter \<open>next_id\<close> of the
    state and keeps the counter above every id that is stored.
    Ids that arrive as text in a path or a body are taken as already cast.
  \<^item> The texts of documents are lists of 8-bit characters (the code units up to
    \<open>0xFF\<close>). The texts of the \<open>page\<close> and \<open>limit\<close> parameters, whose reading depends on
    white space beyond that range, are lists of UTF-16 code units.
  \<^item> The release of the object-document mapper is not fixed by the repository; where
    the behaviour of a call depends on it, the release is a parameter.
  \<^item> The collection is the list of its documents in storage order.
  \<^item> \<open>createdAt\<close> is the time stamp given to a new book; \<open>updatedAt\<close>, the time stamps of
    reviews and the version key are not represented.
  \<^item> \<open>populate('reviews.user', 'username')\<close> only decorates the response and is left out.
  \<^item> The unique index declared on \<open>reviewSchema\<close> is a matter of the storage engine and
    is not represented.
\<close>

subsection \<open>Documents\<close>

type_synonym object_id = nat

record review =
  rid :: object_id
  user :: object_id
  rating :: real
  comment :: string

record book =
  bid :: object_id
  title :: string
  author :: string
  genre :: string
  description :: string
  reviews :: "review list"
  averageRating :: real
  totalReviews :: real
  createdAt :: nat

record state =
  books :: "book list"
  next_id :: object_id

definition empty_state :: state where
  "empty_state = \<lparr>books = [], next_id = 0\<rparr>"

subsection \<open>Text helpers\<close>

text \<open>
  White space as \<open>String.prototype.trim\<close> and the \<open>trim\<close> sanitizer remove it: tab, line
  feed, vertical tab, form feed, carriage return, space and the no-break space
  \<open>U+00A0\<close>. The other white space characters lie above \<open>0xFF\<close>.
\<close>

definition is_ws :: "char \<Rightarrow> bool" where
  "is_ws c =
     (c \<in> set [CHR 0x09, CHR 0x0A, CHR 0x0B, CHR 0x0C, CHR 0x0D, CHR '' '', CHR 0xA0])"

definition trim :: "string \<Rightarrow> string" where
  "trim s = rev (dropWhile is_ws (rev (dropWhile is_ws s)))"

definition toLowerCase :: "char \<Rightarrow> char" where
  "toLowerCase c =
     (case map_of (zip ''ABCDEFGHIJKLMNOPQRSTUVWXYZ'' ''abcdefghijklmnopqrstuvwxyz'') c of
        Some l \<Rightarrow> l
      | None \<Rightarrow> c)"

subsection \<open>Rating recomputation and the save hook\<close>

text \<open>
  \<^verbatim>\<open>bookSchema.methods.updateRating\<close>: an empty collection zeroes both fields and returns;
  otherwise \<open>reduce\<close> adds the ratings up from 0 and the quotient by \<open>reviews.length\<close> is stored.
\<close>

definition updateRating :: "book \<Rightarrow> book" where
  "updateRating b =
     (if length (reviews b) = 0
      then b\<lparr>averageRating := 0, totalReviews := 0\<rparr>
      else
        let totalRating = foldl (\<lambda>sum review. sum + rating review) 0 (reviews b)
        in b\<lparr>averageRating := totalRating / real (length (reviews b)),
              totalReviews := real (length (reviews b))\<rparr>)"

text \<open>\<^verbatim>\<open>bookSchema.pre('save', ...)\<close>: the hook calls \<open>updateRating\<close> on the document.\<close>

definition pre_save :: "book \<Rightarrow> book" where
  "pre_save b = updateRating b"

text \<open>
  Schema validation, which \<open>save\<close> runs before the hooks registered with \<open>pre('save')\<close>:
  the required texts are non-empty, every rating lies between \<open>min: 1\<close> and \<open>max: 5\<close>, every
  comment is non-empty, and \<open>averageRating\<close> (its value before the hook) lies between
  \<open>min: 0\<close> and \<open>max: 5\<close>.
\<close>

definition validate_review :: "review \<Rightarrow> bool" where
  "validate_review r = (1 \<le> rating r \<and> rating r \<le> 5 \<and> comment r \<noteq> [])"

definition validate :: "book \<Rightarrow> bool" where
  "validate b =
     (title b \<noteq> [] \<and> author b \<noteq> [] \<and> genre b \<noteq> [] \<and> description b \<noteq> [] \<and>
      list_all validate_review (reviews b) \<and>
      0 \<le> averageRating b \<and> averageRating b \<le> 5)"

text \<open>
  Writing a document: a document whose id is in the collection replaces the stored one
  (the update of a loaded document), any other is appended (the insert of a new one).
\<close>

fun replace_doc :: "book \<Rightarrow> book list \<Rightarrow> book list" where
  "replace_doc b [] = [b]"
| "replace_doc b (x # xs) = (if bid x = bid b then b # xs else x # replace_doc b xs)"

text \<open>
  \<open>book.save()\<close>: validation, then the hook, then the write. \<open>None\<close> is the validation
  error that \<open>save\<close> throws; nothing is written then. The document is returned as the
  hook left it, since the controllers answer with it.
\<close>

definition save :: "state \<Rightarrow> book \<Rightarrow> (state \<times> book) option" where
  "save s b =
     (if validate b
      then let b' = pre_save b in Some (s\<lparr>books := replace_doc b' (books s)\<rparr>, b')
      else None)"

definition findById :: "state \<Rightarrow> object_id \<Rightarrow> book option" where
  "findById s i = find (\<lambda>b. bid b = i) (books s)"

text \<open>
  \<open>book.save()\<close> of a document made by \<open>new Book(...)\<close> inserts it. The store refuses an
  \<open>_id\<close> that is in the collection (duplicate key) and \<open>save\<close> throws, as it does when
  validation fails.
\<close>

definition save_new :: "state \<Rightarrow> book \<Rightarrow> (state \<times> book) option" where
  "save_new s b = (case findById s (bid b) of Some stored \<Rightarrow> None | None \<Rightarrow> save s b)"

text \<open>
  The ids of a document, and the counter moved above a list of ids: whatever ids a
  stored document carries, the ids drawn later differ from them.
\<close>

definition ids_of :: "book \<Rightarrow> object_id list" where
  "ids_of b = bid b # map rid (reviews b)"

definition above :: "object_id list \<Rightarrow> object_id \<Rightarrow> object_id" where
  "above ids n = foldr (\<lambda>i m. max (Suc i) m) ids n"

subsection \<open>Requests and responses\<close>

datatype json =
    Doc book
  | Docs "book list"
  | Listing "book list" int int nat
  | Message string
  | MessageDoc string book
  | ValidationErrors "string list"
  | Failure string

type_synonym response = "nat \<times> json"

text \<open>The route parameters a controller reads: \<open>req.params.id\<close> and \<open>req.params.reviewId\<close>.\<close>

record params =
  p_id :: "object_id option"
  p_reviewId :: "object_id option"

text \<open>The body of a review request; a field that is absent is \<open>None\<close>.\<close>

record review_body =
  b_rating :: "real option"
  b_comment :: "string option"

text \<open>
  The body of a create request. \<open>new Book(req.body)\<close> takes every path of the schema
  from it, so besides the four texts it may carry an \<open>_id\<close>, reviews (each with an \<open>_id\<close>
  or without) and the derived fields.
\<close>

record review_entry =
  e_id :: "object_id option"
  e_user :: object_id
  e_rating :: real
  e_comment :: string

record book_body =
  b_id :: "object_id option"
  b_title :: "string option"
  b_author :: "string option"
  b_genre :: "string option"
  b_description :: "string option"
  b_reviews :: "review_entry list"
  b_averageRating :: "real option"
  b_totalReviews :: "real option"

subsection \<open>Request validation (the chains of the router)\<close>

text \<open>
  \<open>body(f).trim().notEmpty()\<close> replaces the field by its trimmed text (an absent field
  reads as the empty text) and records an error when nothing is left.
  \<open>body('rating').isInt({ min: 1, max: 5 })\<close> accepts the integers from 1 to 5.
\<close>

definition text_of :: "string option \<Rightarrow> string" where
  "text_of x = (case x of None \<Rightarrow> [] | Some t \<Rightarrow> t)"

definition isInt :: "real option \<Rightarrow> int \<Rightarrow> int \<Rightarrow> bool" where
  "isInt x lo hi =
     (case x of
        None \<Rightarrow> False
      | Some r \<Rightarrow> r = of_int \<lfloor>r\<rfloor> \<and> of_int lo \<le> r \<and> r \<le> of_int hi)"

definition validateBook :: "book_body \<Rightarrow> string list \<times> book_body" where
  "validateBook body =
     (let t = trim (text_of (b_title body));
          a = trim (text_of (b_author body));
          g = trim (text_of (b_genre body));
          d = trim (text_of (b_description body))
      in ((if t = [] then [''title''] else []) @
          (if a = [] then [''author''] else []) @
          (if g = [] then [''genre''] else []) @
          (if d = [] then [''description''] else []),
          body\<lparr>b_title := Some t, b_author := Some a, b_genre := Some g,
               b_description := Some d\<rparr>))"

definition validateReview :: "review_body \<Rightarrow> string list \<times> review_body" where
  "validateReview body =
     (let c = trim (text_of (b_comment body))
      in ((if isInt (b_rating body) 1 5 then [] else [''rating'']) @
          (if c = [] then [''comment''] else []),
          body\<lparr>b_comment := Some c\<rparr>))"

subsection \<open>Building documents\<close>

text \<open>
  The schema trims \<open>title\<close>, \<open>author\<close>, \<open>genre\<close> and a review's \<open>comment\<close> when they are
  set. An absent rating is stored here as 0, which validation rejects as it rejects the
  absent one.
\<close>

definition number_of :: "real option \<Rightarrow> real" where
  "number_of x = (case x of None \<Rightarrow> 0 | Some r \<Rightarrow> r)"

definition new_review :: "object_id \<Rightarrow> object_id \<Rightarrow> review_body \<Rightarrow> review" where
  "new_review i u body =
     \<lparr>rid = i, user = u, rating = number_of (b_rating body),
      comment = trim (text_of (b_comment body))\<rparr>"

text \<open>
  \<open>new Book(req.body)\<close>: the book and each review keep the \<open>_id\<close> of the body and get a
  new one (\<open>i\<close> for the book, the next ones for the reviews in their order) when the body
  has none.
\<close>

definition entry_review :: "object_id \<Rightarrow> review_entry \<Rightarrow> review" where
  "entry_review i e =
     \<lparr>rid = (case e_id e of None \<Rightarrow> i | Some given \<Rightarrow> given),
      user = e_user e, rating = e_rating e, comment = trim (e_comment e)\<rparr>"

definition new_Book :: "object_id \<Rightarrow> nat \<Rightarrow> book_body \<Rightarrow> book" where
  "new_Book i now body =
     \<lparr>bid = (case b_id body of None \<Rightarrow> i | Some given \<Rightarrow> given),
      title = trim (text_of (b_title body)),
      author = trim (text_of (b_author body)),
      genre = trim (text_of (b_genre body)),
      description = text_of (b_description body),
      reviews = map2 entry_review [Suc i ..< Suc i + length (b_reviews body)] (b_reviews body),
      averageRating = number_of (b_averageRating body),
      totalReviews = number_of (b_totalReviews body),
      createdAt = now\<rparr>"

subsection \<open>The controllers that write\<close>

text \<open>
  \<open>exports.createBook\<close>. The ids of the book and of its reviews are drawn first, and the
  counter moves above them and above the ids that came with the body.
\<close>

definition createBook :: "state \<Rightarrow> nat \<Rightarrow> book_body \<Rightarrow> state \<times> response" where
  "createBook s now body =
     (case validateBook body of (errors, body') \<Rightarrow>
        if errors \<noteq> [] then (s, (400, ValidationErrors errors))
        else
          let book = new_Book (next_id s) now body';
              s1 = s\<lparr>next_id :=
                     above (ids_of book) (Suc (next_id s) + length (b_reviews body'))\<rparr>
          in (case save_new s1 book of
                None \<Rightarrow> (s, (500, Failure ''Error creating book''))
              | Some (s2, book') \<Rightarrow> (s2, (201, Doc book'))))"

text \<open>\<open>exports.addReview\<close>; \<open>uid\<close> is \<open>req.user._id\<close>, set by the auth middleware.\<close>

definition addReview :: "state \<Rightarrow> params \<Rightarrow> object_id \<Rightarrow> review_body \<Rightarrow> state \<times> response" where
  "addReview s ps uid body =
     (case validateReview body of (errors, body') \<Rightarrow>
        if errors \<noteq> [] then (s, (400, ValidationErrors errors))
        else
          (case p_id ps of
             None \<Rightarrow> (s, (400, Message ''Book ID is required''))
           | Some i \<Rightarrow>
              (case findById s i of
                 None \<Rightarrow> (s, (404, Message ''Book not found''))
               | Some book \<Rightarrow>
                  (case find (\<lambda>review. user review = uid) (reviews book) of
                     Some existingReview \<Rightarrow>
                       (s, (400, Message ''You have already reviewed this book''))
                   | None \<Rightarrow>
                       let book1 = book\<lparr>reviews :=
                             reviews book @ [new_review (next_id s) uid body']\<rparr>;
                           s1 = s\<lparr>next_id := Suc (next_id s)\<rparr>
                       in (case save s1 book1 of
                             None \<Rightarrow> (s, (500, Failure ''Error adding review''))
                           | Some (s2, book2) \<Rightarrow>
                               (s2, (201, MessageDoc ''Review added successfully'' book2)))))))"

text \<open>Assigning to the fields of the first element that satisfies a test, in place.\<close>

fun update_first :: "('a \<Rightarrow> bool) \<Rightarrow> ('a \<Rightarrow> 'a) \<Rightarrow> 'a list \<Rightarrow> 'a list" where
  "update_first P f [] = []"
| "update_first P f (x # xs) = (if P x then f x # xs else x # update_first P f xs)"

text \<open>\<open>exports.updateReview\<close>.\<close>

definition updateReview :: "state \<Rightarrow> params \<Rightarrow> object_id \<Rightarrow> review_body \<Rightarrow> state \<times> response" where
  "updateReview s ps uid body =
     (case validateReview body of (errors, body') \<Rightarrow>
        if errors \<noteq> [] then (s, (400, ValidationErrors errors))
        else
         (case p_id ps of
          None \<Rightarrow> (s, (400, Message ''Book ID is required''))
        | Some bookId \<Rightarrow>
           (case findById s bookId of
              None \<Rightarrow> (s, (404, Message ''Book not found''))
            | Some book \<Rightarrow>
               (case find (\<lambda>review. user review = uid) (reviews book) of
                  Some existingReview \<Rightarrow>
                    let book1 = book\<lparr>reviews :=
                          update_first (\<lambda>review. user review = uid)
                            (\<lambda>review. review\<lparr>rating := number_of (b_rating body'),
                                              comment := trim (text_of (b_comment body'))\<rparr>)
                            (reviews book)\<rparr>
                    in (case save s book1 of
                          None \<Rightarrow> (s, (500, Failure ''Error updating review''))
                        | Some (s2, book2) \<Rightarrow>
                            (s2, (200, MessageDoc ''Review updated successfully'' book2)))
                | None \<Rightarrow>
                    let book1 = book\<lparr>reviews := reviews book @ [new_review (next_id s) uid body']\<rparr>;
                        s1 = s\<lparr>next_id := Suc (next_id s)\<rparr>
                    in (case save s1 book1 of
                          None \<Rightarrow> (s, (500, Failure ''Error updating review''))
                        | Some (s2, book2) \<Rightarrow>
                            (s2, (200, MessageDoc ''Review added successfully'' book2)))))))"

text \<open>
  The library. Up to release 6 of mongoose a subdocument has the method \<open>remove()\<close>, which
  pulls the subdocuments with its \<open>_id\<close> out of the array that holds it. Release 7 dropped
  the method (\<open>deleteOne()\<close> took its place), so that there the call \<open>review.remove()\<close>
  throws a \<open>TypeError\<close>. \<open>Mongoose_6\<close> stands for the releases up to 6 and \<open>Mongoose_7\<close>
  for the later ones; \<open>None\<close> is the exception.
\<close>

datatype mongoose = Mongoose_6 | Mongoose_7

definition subdocument_remove :: "mongoose \<Rightarrow> review \<Rightarrow> review list \<Rightarrow> review list option" where
  "subdocument_remove lib review rs =
     (case lib of
        Mongoose_6 \<Rightarrow> Some (filter (\<lambda>x. rid x \<noteq> rid review) rs)
      | Mongoose_7 \<Rightarrow> None)"

text \<open>
  \<open>exports.deleteReview\<close>. \<open>book.reviews.id(x)\<close> is the first review with that id, and none
  when \<open>x\<close> is undefined. Whatever is thrown between \<open>try\<close> and \<open>catch\<close>, by
  \<open>review.remove()\<close> or by \<open>book.save()\<close>, is answered with 500.
\<close>

definition deleteReview :: "mongoose \<Rightarrow> state \<Rightarrow> params \<Rightarrow> object_id \<Rightarrow> state \<times> response" where
  "deleteReview lib s ps uid =
     (case p_id ps of
        None \<Rightarrow> (s, (404, Message ''BookId not found''))
      | Some i \<Rightarrow>
         (case findById s i of
            None \<Rightarrow> (s, (404, Message ''Book not found''))
          | Some book \<Rightarrow>
             (case (case p_reviewId ps of
                      None \<Rightarrow> None
                    | Some r \<Rightarrow> find (\<lambda>review. rid review = r) (reviews book)) of
                None \<Rightarrow> (s, (404, Message ''Review not found''))
              | Some review \<Rightarrow>
                  if user review \<noteq> uid
                  then (s, (403, Message ''Not authorized to delete this review''))
                  else
                    (case subdocument_remove lib review (reviews book) of
                       None \<Rightarrow> (s, (500, Failure ''Error deleting review''))
                     | Some remaining \<Rightarrow>
                         (case save s (book\<lparr>reviews := remaining\<rparr>) of
                            None \<Rightarrow> (s, (500, Failure ''Error deleting review''))
                          | Some (s2, book2) \<Rightarrow> (s2, (200, Doc book2)))))))"

subsection \<open>The controllers that read\<close>

text \<open>\<open>exports.getBookById\<close>.\<close>

definition getBookById :: "state \<Rightarrow> params \<Rightarrow> response" where
  "getBookById s ps =
     (case p_id ps of
        None \<Rightarrow> (400, Message ''Book ID is required'')
      | Some i \<Rightarrow>
         (case findById s i of
            None \<Rightarrow> (404, Message ''Book not found'')
          | Some book \<Rightarrow> (200, Doc book)))"

text \<open>
  The texts that \<open>parseInt\<close> reads are lists of UTF-16 code units; \<open>units\<close> gives the
  code units of a text of 8-bit characters.
\<close>

type_synonym code_unit = nat

definition units :: "string \<Rightarrow> code_unit list" where
  "units t = map of_char t"

text \<open>
  The white space that \<open>parseInt\<close> skips (\<open>StrWhiteSpaceChar\<close>): the white space and line
  terminator characters of the language, which are tab, line feed, vertical tab, form
  feed, carriage return, space, \<open>U+00A0\<close>, \<open>U+1680\<close>, \<open>U+2000\<close> to \<open>U+200A\<close>, \<open>U+2028\<close>,
  \<open>U+2029\<close>, \<open>U+202F\<close>, \<open>U+205F\<close>, \<open>U+3000\<close> and \<open>U+FEFF\<close>.
\<close>

definition StrWhiteSpaceChar :: "code_unit \<Rightarrow> bool" where
  "StrWhiteSpaceChar c =
     (c \<in> set [0x09, 0x0A, 0x0B, 0x0C, 0x0D, 0x20, 0xA0, 0x1680, 0x2028, 0x2029, 0x202F,
               0x205F, 0x3000, 0xFEFF] \<or>
      (0x2000 \<le> c \<and> c \<le> 0x200A))"

text \<open>
  \<open>parseInt\<close> with no radix: leading white space is skipped, a sign is read, the prefix
  \<open>0x\<close> or \<open>0X\<close> selects radix 16, and the longest run of digits of the radix is the value;
  \<open>None\<close> is \<open>NaN\<close>, the result when there is no digit. The value is the integer that the
  digits denote; the code has its nearest double, which is the same number up to
  \<open>2^53\<close>.
\<close>

definition digit_value :: "code_unit \<Rightarrow> nat option" where
  "digit_value c =
     (if 48 \<le> c \<and> c \<le> 57 then Some (c - 48)
      else if 97 \<le> c \<and> c \<le> 122 then Some (c - 87)
      else if 65 \<le> c \<and> c \<le> 90 then Some (c - 55)
      else None)"

definition is_digit_of :: "nat \<Rightarrow> code_unit \<Rightarrow> bool" where
  "is_digit_of R c = (case digit_value c of None \<Rightarrow> False | Some d \<Rightarrow> d < R)"

definition digits_value :: "nat \<Rightarrow> code_unit list \<Rightarrow> nat" where
  "digits_value R Z =
     foldl (\<lambda>n c. n * R + (case digit_value c of None \<Rightarrow> 0 | Some d \<Rightarrow> d)) 0 Z"

definition parseInt :: "code_unit list \<Rightarrow> int option" where
  "parseInt input =
     (let S = dropWhile StrWhiteSpaceChar input;
          sign = (case S of [] \<Rightarrow> 1 | c # cs \<Rightarrow> if c = 0x2D then - 1 else 1);
          S1 = (case S of [] \<Rightarrow> S
                | c # cs \<Rightarrow> if c = 0x2B \<or> c = 0x2D then cs else S);
          stripPrefix = (take 2 S1 = [0x30, 0x78] \<or> take 2 S1 = [0x30, 0x58]);
          R = (if stripPrefix then 16 else 10);
          S2 = (if stripPrefix then drop 2 S1 else S1);
          Z = takeWhile (is_digit_of R) S2
      in if Z = [] then None else Some (sign * int (digits_value R Z)))"

text \<open>
  The query of a list request; a parameter that is absent is \<open>None\<close>. \<open>page\<close> and \<open>limit\<close>
  are the texts that \<open>parseInt\<close> makes of the parameters.
\<close>

record list_query =
  q_page :: "code_unit list option"
  q_limit :: "code_unit list option"
  q_author :: "string option"
  q_genre :: "string option"

text \<open>
  \<open>parseInt(req.query.page) || 1\<close>: an absent parameter is read as the text
  \<open>undefined\<close>, and \<open>NaN\<close> and 0 are falsy.
\<close>

definition param_text :: "code_unit list option \<Rightarrow> code_unit list" where
  "param_text x = (case x of None \<Rightarrow> units ''undefined'' | Some t \<Rightarrow> t)"

definition or_default :: "int option \<Rightarrow> int \<Rightarrow> int" where
  "or_default x d = (case x of None \<Rightarrow> d | Some n \<Rightarrow> if n = 0 then d else n)"

definition page_of :: "list_query \<Rightarrow> int" where
  "page_of q = or_default (parseInt (param_text (q_page q))) 1"

definition limit_of :: "list_query \<Rightarrow> int" where
  "limit_of q = or_default (parseInt (param_text (q_limit q))) 10"

text \<open>
  The regular expressions are not part of the repository: \<open>new RegExp(p, 'i')\<close> is a
  parameter that maps a pattern to \<open>None\<close> when the constructor throws and otherwise to
  the test "the expression matches somewhere in this text", letter case ignored.
  A filter is set only for a parameter that is truthy (present and not empty).
\<close>

type_synonym regexp = "string \<Rightarrow> (string \<Rightarrow> bool) option"

definition field_filter :: "regexp \<Rightarrow> string option \<Rightarrow> (string \<Rightarrow> bool) option" where
  "field_filter RegExp_i x =
     (case x of
        None \<Rightarrow> Some (\<lambda>t. True)
      | Some p \<Rightarrow> if p = [] then Some (\<lambda>t. True) else RegExp_i p)"

definition build_query :: "regexp \<Rightarrow> list_query \<Rightarrow> (book \<Rightarrow> bool) option" where
  "build_query RegExp_i q =
     (case field_filter RegExp_i (q_author q) of
        None \<Rightarrow> None
      | Some by_author \<Rightarrow>
         (case field_filter RegExp_i (q_genre q) of
            None \<Rightarrow> None
          | Some by_genre \<Rightarrow> Some (\<lambda>b. by_author (author b) \<and> by_genre (genre b))))"

text \<open>\<open>sort({ createdAt: -1 })\<close>; the order of books with equal time stamps is the stored one.\<close>

definition newest_first :: "book list \<Rightarrow> book list" where
  "newest_first bs = sort_key (\<lambda>b. - int (createdAt b)) bs"

text \<open>
  \<open>exports.getAllBooks\<close>. The query sorts before it skips and limits, whatever the order
  of the calls in the chain. The store rejects a negative skip (the \<open>find\<close> command wants
  it non-negative), and the driver sends a negative limit as its absolute value, to be
  answered in one batch, which is taken to hold that many books; every failure is
  answered with 500.
\<close>

definition getAllBooks :: "regexp \<Rightarrow> state \<Rightarrow> list_query \<Rightarrow> response" where
  "getAllBooks RegExp_i s q =
     (let page = page_of q;
          limit = limit_of q;
          skip = (page - 1) * limit
      in case build_query RegExp_i q of
           None \<Rightarrow> (500, Failure ''Error fetching books'')
         | Some query \<Rightarrow>
             if skip < 0 then (500, Failure ''Error fetching books'')
             else
               let found = take (nat \<bar>limit\<bar>)
                             (drop (nat skip) (newest_first (filter query (books s))));
                   total = length (filter query (books s))
               in (200, Listing found page \<lceil>real total / real_of_int limit\<rceil> total))"

text \<open>
  The text index on \<open>title\<close> and \<open>author\<close> belongs to the store: \<open>textScore\<close> is a
  parameter that gives the relevance of a book's title and author for a search text, and
  \<open>None\<close> when the book does not match.
\<close>

type_synonym text_index = "string \<Rightarrow> string \<Rightarrow> string \<Rightarrow> real option"

definition score_of :: "text_index \<Rightarrow> string \<Rightarrow> book \<Rightarrow> real" where
  "score_of textScore q b =
     (case textScore q (title b) (author b) of None \<Rightarrow> 0 | Some x \<Rightarrow> x)"

text \<open>\<open>exports.searchBooks\<close>; \<open>!query\<close> holds for an absent and for an empty parameter.\<close>

definition searchBooks :: "text_index \<Rightarrow> state \<Rightarrow> string option \<Rightarrow> response" where
  "searchBooks textScore s query =
     (case query of
        None \<Rightarrow> (400, Message ''Search query is required'')
      | Some q \<Rightarrow>
          if q = [] then (400, Message ''Search query is required'')
          else
            (200, Docs (take 10
               (sort_key (\<lambda>b. - score_of textScore q b)
                  (filter (\<lambda>b. textScore q (title b) (author b) \<noteq> None) (books s))))))"

subsection \<open>The book router\<close>

datatype http_method = GET | POST | PUT | DELETE

datatype segment = Lit string | Par string

datatype action =
    CreateBook | GetAllBooks | SearchBooks | GetBookById
  | AddReview | UpdateReview | DeleteReview

text \<open>
  The routes in the order of their registration: method, path, whether \<open>auth\<close> is in the
  chain, and the controller. A path is the list of its segments.
\<close>

definition book_routes :: "(http_method \<times> segment list \<times> bool \<times> action) list" where
  "book_routes =
     [(POST, [], True, CreateBook),
      (GET, [], False, GetAllBooks),
      (GET, [Lit ''search''], False, SearchBooks),
      (GET, [Par ''id''], False, GetBookById),
      (POST, [Par ''id'', Lit ''reviews''], True, AddReview),
      (PUT, [Lit ''reviews'', Lit ''bookId''], True, UpdateReview),
      (DELETE, [Par ''id''], True, DeleteReview)]"

text \<open>
  A route matches a path of the same length whose literal segments agree, letter case
  ignored; a parameter takes the segment in its place.
\<close>

fun match_path :: "segment list \<Rightarrow> string list \<Rightarrow> (string \<times> string) list option" where
  "match_path [] [] = Some []"
| "match_path (Lit l # ps) (x # xs) =
     (if map toLowerCase x = map toLowerCase l then match_path ps xs else None)"
| "match_path (Par n # ps) (x # xs) =
     (case match_path ps xs of None \<Rightarrow> None | Some bound \<Rightarrow> Some ((n, x) # bound))"
| "match_path ps xs = None"

text \<open>The first route of the method that matches handles the request.\<close>

fun dispatch ::
  "(http_method \<times> segment list \<times> bool \<times> action) list \<Rightarrow> http_method \<Rightarrow> string list \<Rightarrow>
     (action \<times> (string \<times> string) list) option" where
  "dispatch [] m path = None"
| "dispatch ((m', pattern, auth, act) # routes) m path =
     (if m' = m
      then (case match_path pattern path of
              None \<Rightarrow> dispatch routes m path
            | Some bound \<Rightarrow> Some (act, bound))
      else dispatch routes m path)"

text \<open>\<open>app.use('/books', bookRoutes)\<close>: the router sees the path below its mount point.\<close>

definition books_app ::
  "http_method \<Rightarrow> string list \<Rightarrow> (action \<times> (string \<times> string) list) option" where
  "books_app m path =
     (case path of
        [] \<Rightarrow> None
      | mount # rest \<Rightarrow>
          if map toLowerCase mount = ''books'' then dispatch book_routes m rest else None)"

text \<open>
  The states of the service: the empty collection and whatever the four writers make of
  it, with either release of the library.
\<close>

inductive reachable :: "state \<Rightarrow> bool" where
  reachable_empty: "reachable empty_state"
| reachable_create: "reachable s \<Longrightarrow> reachable (fst (createBook s now body))"
| reachable_add: "reachable s \<Longrightarrow> reachable (fst (addReview s ps uid rbody))"
| reachable_update: "reachable s \<Longrightarrow> reachable (fst (updateReview s ps uid rbody))"
| reachable_delete: "reachable s \<Longrightarrow> reachable (fst (deleteReview lib s ps uid))"

code_pred reachable .

subsection \<open>What the specification calls consistent\<close>

definition consistent :: "book \<Rightarrow> bool" where
  "consistent b =
     (totalReviews b = real (length (reviews b)) \<and>
      averageRating b =
        (if reviews b = [] then 0
         else sum_list (map rating (reviews b)) / real (length (reviews b))))"



text \<open>Case-insensitive partial match: the first text occurs in the second, letter case ignored.\<close>

fun ci_prefix :: "string \<Rightarrow> string \<Rightarrow> bool" where
  "ci_prefix [] t = True"
| "ci_prefix (c # p) [] = False"
| "ci_prefix (c # p) (d # t) = (toLowerCase c = toLowerCase d \<and> ci_prefix p t)"

fun ci_contains :: "string \<Rightarrow> string \<Rightarrow> bool" where
  "ci_contains p [] = ci_prefix p []"
| "ci_contains p (d # t) = (ci_prefix p (d # t) \<or> ci_contains p t)"

text \<open>The characters with a meaning of their own in a pattern.\<close>

definition syntax_characters :: string where
  "syntax_characters = CHR 0x5C # ''^$.*+?()[]{}|''"

text \<open>
  A regular-expression facility for the patterns made of ordinary characters and the dot,
  which stands for any character but a line break. It answers \<open>None\<close> outside this
  fragment; of the patterns outside it only \<open>(\<close> is used below, an unterminated group,
  for which \<open>new RegExp\<close> throws a \<open>SyntaxError\<close>.
\<close>

fun dot_prefix :: "string \<Rightarrow> string \<Rightarrow> bool" where
  "dot_prefix [] t = True"
| "dot_prefix (c # p) [] = False"
| "dot_prefix (c # p) (d # t) =
     ((if c = CHR ''.'' then d \<noteq> CHR 0x0A \<and> d \<noteq> CHR 0x0D
       else toLowerCase c = toLowerCase d) \<and> dot_prefix p t)"

fun dot_search :: "string \<Rightarrow> string \<Rightarrow> bool" where
  "dot_search p [] = dot_prefix p []"
| "dot_search p (d # t) = (dot_prefix p (d # t) \<or> dot_search p t)"

definition dot_RegExp :: regexp where
  "dot_RegExp p =
     (if list_all (\<lambda>c. c = CHR ''.'' \<or> c \<notin> set syntax_characters) p
      then Some (dot_search p) else None)"

text \<open>
  The parameters that \<open>parseInt(x) || d\<close> replaces by the default \<open>d\<close>. A text is not
  numeric when, after leading white space and one sign, it does not begin with a number:
  with a hexadecimal digit after the prefix \<open>0x\<close> or \<open>0X\<close>, with a decimal digit otherwise.
  A parameter is defaulted when it is absent, not numeric, or read as zero.
\<close>

definition is_decimal_digit :: "code_unit \<Rightarrow> bool" where
  "is_decimal_digit c = (0x30 \<le> c \<and> c \<le> 0x39)"

definition is_hex_digit :: "code_unit \<Rightarrow> bool" where
  "is_hex_digit c =
     (is_decimal_digit c \<or> (0x41 \<le> c \<and> c \<le> 0x46) \<or> (0x61 \<le> c \<and> c \<le> 0x66))"

definition after_sign :: "code_unit list \<Rightarrow> code_unit list" where
  "after_sign t =
     (case dropWhile StrWhiteSpaceChar t of
        [] \<Rightarrow> []
      | c # cs \<Rightarrow> if c = 0x2B \<or> c = 0x2D then cs else c # cs)"

fun begins_with_number :: "code_unit list \<Rightarrow> bool" where
  "begins_with_number [] = False"
| "begins_with_number [c] = is_decimal_digit c"
| "begins_with_number (c # x # rest) =
     (if c = 0x30 \<and> (x = 0x78 \<or> x = 0x58)
      then (case rest of [] \<Rightarrow> False | d # ds \<Rightarrow> is_hex_digit d)
      else is_decimal_digit c)"

definition non_numeric :: "code_unit list \<Rightarrow> bool" where
  "non_numeric t = (\<not> begins_with_number (after_sign t))"

definition defaulted :: "code_unit list option \<Rightarrow> bool" where
  "defaulted x =
     (case x of None \<Rightarrow> True | Some t \<Rightarrow> non_numeric t \<or> parseInt t = Some 0)"

text \<open>One review per user: no two reviews of a book have the same author.\<close>

definition one_review_per_user :: "book \<Rightarrow> bool" where
  "one_review_per_user b = distinct (map user (reviews b))"

subsection \<open>Sample data\<close>

text \<open>A create request whose body carries two reviews of the same user.\<close>

definition twice_reviewed_body :: book_body where
  "twice_reviewed_body =
     \<lparr>b_id = None,
      b_title = Some ''Emma'', b_author = Some ''Jane Austen'', b_genre = Some ''Novel'',
      b_description = Some ''A novel'',
      b_reviews = [\<lparr>e_id = None, e_user = 7, e_rating = 5, e_comment = ''fine''\<rparr>,
                   \<lparr>e_id = None, e_user = 7, e_rating = 1, e_comment = ''poor''\<rparr>],
      b_averageRating = None, b_totalReviews = None\<rparr>"

definition emma_body :: book_body where
  "emma_body =
     \<lparr>b_id = None,
      b_title = Some ''Emma'', b_author = Some '' Jane Austen'', b_genre = Some ''Novel'',
      b_description = Some ''A novel'', b_reviews = [],
      b_averageRating = Some 5, b_totalReviews = Some 9\<rparr>"

definition emma_state :: state where
  "emma_state = fst (createBook empty_state 1 emma_body)"

definition five_stars :: review_body where
  "five_stars = \<lparr>b_rating = Some 5, b_comment = Some ''fine ''\<rparr>"

definition reviewed_state :: state where
  "reviewed_state =
     fst (addReview emma_state \<lparr>p_id = Some 0, p_reviewId = None\<rparr> 7 five_stars)"

text \<open>Three books, and a text index that ranks a hit in the title above one in the author.\<close>

definition shelf :: state where
  "shelf =
     \<lparr>books =
        [\<lparr>bid = 0, title = ''Emma'', author = ''Jane Austen'', genre = ''Novel'',
          description = ''A novel'', reviews = [], averageRating = 0, totalReviews = 0,
          createdAt = 10\<rparr>,
         \<lparr>bid = 2, title = ''Animal Farm'', author = ''George Orwell'', genre = ''Satire'',
          description = ''A fable'', reviews = [], averageRating = 0, totalReviews = 0,
          createdAt = 30\<rparr>,
         \<lparr>bid = 3, title = ''Orlando'', author = ''Virginia Woolf'', genre = ''Novel'',
          description = ''A biography'', reviews = [], averageRating = 0, totalReviews = 0,
          createdAt = 20\<rparr>],
      next_id = 4\<rparr>"

definition sample_index :: text_index where
  "sample_index q t a =
     (if ci_contains q t then Some 2 else if ci_contains q a then Some 1 else None)"

section \<open>Rating recomputation\<close>

lemma foldl_rating:
  "foldl (\<lambda>sum review. sum + rating review) a rs = a + sum_list (map rating rs)"
  by (induction rs arbitrary: a) simp_all

lemma updateRating_fields:
  "averageRating (updateRating b) =
     (if reviews b = [] then 0 else sum_list (map rating (reviews b)) / real (length (reviews b)))"
  "totalReviews (updateRating b) = real (length (reviews b))"
  "reviews (updateRating b) = reviews b"
  "bid (updateRating b) = bid b"
  "title (updateRating b) = title b"
  "author (updateRating b) = author b"
  "genre (updateRating b) = genre b"
  "description (updateRating b) = description b"
  "createdAt (updateRating b) = createdAt b"
  by (simp_all add: updateRating_def foldl_rating Let_def)

lemma consistent_updateRating: "consistent (updateRating b)"
  by (simp add: consistent_def updateRating_fields)

section \<open>Well-formed states\<close>

lemmas run_defs = createBook_def addReview_def updateReview_def deleteReview_def
  subdocument_remove_def save_new_def ids_of_def above_def
  validateBook_def validateReview_def new_Book_def new_review_def entry_review_def
  save_def pre_save_def validate_def validate_review_def updateRating_def findById_def
  trim_def is_ws_def text_of_def number_of_def isInt_def empty_state_def Let_def

lemma save_SomeD:
  "save s b = Some (s', b') \<Longrightarrow>
     validate b \<and> b' = updateRating b \<and> books s' = replace_doc b' (books s) \<and>
     next_id s' = next_id s"
  by (auto simp: save_def pre_save_def Let_def split: if_splits)

lemma list_all_replace_doc:
  "list_all P xs \<Longrightarrow> P b \<Longrightarrow> list_all P (replace_doc b xs)"
  by (induction xs) auto

lemma sum_rating_bounds:
  "list_all validate_review rs \<Longrightarrow>
     real (length rs) \<le> sum_list (map rating rs) \<and> sum_list (map rating rs) \<le> 5 * real (length rs)"
  by (induction rs) (auto simp: validate_review_def)

lemma average_in_range:
  assumes "list_all validate_review rs" "rs \<noteq> []"
  shows "0 \<le> sum_list (map rating rs) / real (length rs)"
    and "sum_list (map rating rs) / real (length rs) \<le> 5"
proof -
  have pos: "0 < real (length rs)" using assms(2) by simp
  from sum_rating_bounds [OF assms(1)]
  show "0 \<le> sum_list (map rating rs) / real (length rs)"
    using pos by (simp add: divide_nonneg_pos)
  from sum_rating_bounds [OF assms(1)]
  show "sum_list (map rating rs) / real (length rs) \<le> 5"
    using pos by (simp add: pos_divide_le_eq)
qed

lemma validate_updateRating:
  assumes "title b \<noteq> []" "author b \<noteq> []" "genre b \<noteq> []" "description b \<noteq> []"
    "list_all validate_review (reviews b)"
  shows "validate (updateRating b)"
  using assms average_in_range [of "reviews b"]
  by (auto simp: validate_def updateRating_fields)



lemma findById_SomeD: "findById s i = Some b \<Longrightarrow> b \<in> set (books s) \<and> bid b = i"
  by (auto simp: findById_def find_Some_iff)













lemma consistent_fixed: "consistent b \<Longrightarrow> updateRating b = b"
  by (cases "reviews b = []") (simp_all add: consistent_def updateRating_def foldl_rating Let_def)


lemma emma_state_eq: "emma_state =
  \<lparr>books = [\<lparr>bid = 0, title = ''Emma'', author = ''Jane Austen'', genre = ''Novel'',
      description = ''A novel'', reviews = [], averageRating = 0, totalReviews = 0, createdAt = 1\<rparr>],
   next_id = 1\<rparr>"
  by (simp add: emma_state_def emma_body_def run_defs)

lemma reviewed_state_eq: "reviewed_state =
  \<lparr>books = [\<lparr>bid = 0, title = ''Emma'', author = ''Jane Austen'', genre = ''Novel'',
      description = ''A novel'', reviews = [\<lparr>rid = 1, user = 7, rating = 5, comment = ''fine''\<rparr>],
      averageRating = 5, totalReviews = 1, createdAt = 1\<rparr>],
   next_id = 2\<rparr>"
  by (simp add: reviewed_state_def emma_state_eq five_stars_def run_defs)



section \<open>Deleting, adding and updating reviews\<close>

lemma save_valid:
  "validate b \<Longrightarrow>
     save s b = Some (s\<lparr>books := replace_doc (updateRating b) (books s)\<rparr>, updateRating b)"
  by (simp add: save_def pre_save_def Let_def)

lemma find_replace_doc_same:
  "find (\<lambda>x. bid x = bid b) (replace_doc b xs) = Some b"
  by (induction xs) auto

lemma find_replace_doc_other:
  "j \<noteq> bid b \<Longrightarrow> find (\<lambda>x. bid x = j) (replace_doc b xs) = find (\<lambda>x. bid x = j) xs"
  by (induction xs) auto

lemma findById_saved:
  "findById (s\<lparr>books := replace_doc b (books s)\<rparr>) j =
     (if j = bid b then Some b else findById s j)"
  by (simp add: findById_def find_replace_doc_same find_replace_doc_other)






text \<open>
  With the later releases of the library the call \<open>review.remove()\<close> throws: a delete
  request that gets as far as the removal is answered with 500, and no delete request
  changes the collection.
\<close>

lemma deleteReview_without_remove:
  "fst (deleteReview Mongoose_7 s ps uid) = s"
  "findById s i = Some book \<Longrightarrow> find (\<lambda>x. rid x = r) (reviews book) = Some review \<Longrightarrow>
     user review = uid \<Longrightarrow>
     deleteReview Mongoose_7 s \<lparr>p_id = Some i, p_reviewId = Some r\<rparr> uid =
       (s, (500, Failure ''Error deleting review''))"
  by (simp_all add: deleteReview_def subdocument_remove_def split: option.splits)



lemma find_append_last:
  "\<forall>x\<in>set xs. \<not> P x \<Longrightarrow> P y \<Longrightarrow> find P (xs @ [y]) = Some y"
  by (induction xs) auto







lemma update_first_fixed:
  "find P xs = Some x \<Longrightarrow> f x = x \<Longrightarrow> update_first P f xs = xs"
  by (induction xs) (auto split: if_splits)

lemma find_update_first:
  "find P xs = Some x \<Longrightarrow> P (f x) \<Longrightarrow> find P (update_first P f xs) = Some (f x)"
  by (induction xs) (auto split: if_splits)

lemma find_holds: "find P xs = Some x \<Longrightarrow> P x"
  by (auto simp: find_Some_iff)

lemma replace_doc_same:
  "find (\<lambda>x. bid x = bid b) xs = Some b \<Longrightarrow> replace_doc b xs = xs"
  by (induction xs) (auto split: if_splits)

lemma updateRating_idem: "updateRating (updateRating b) = updateRating b"
  by (rule consistent_fixed) (rule consistent_updateRating)

lemma validate_saved: "validate b \<Longrightarrow> validate (updateRating b)"
  by (rule validate_updateRating) (simp_all add: validate_def)

lemma updateReview_settled:
  assumes vr: "validateReview body = ([], body')"
    and pid: "p_id ps = Some i"
    and fb: "findById s i = Some b"
    and fr: "find (\<lambda>review. user review = uid) (reviews b) = Some x"
    and same: "x\<lparr>rating := number_of (b_rating body'),
                  comment := trim (text_of (b_comment body'))\<rparr> = x"
    and val: "validate b" and fixed: "updateRating b = b"
  shows "fst (updateReview s ps uid body) = s"
proof -
  have "update_first (\<lambda>review. user review = uid)
          (\<lambda>review. review\<lparr>rating := number_of (b_rating body'),
                            comment := trim (text_of (b_comment body'))\<rparr>) (reviews b) = reviews b"
    using fr same by (rule update_first_fixed)
  moreover have "replace_doc b (books s) = books s"
    using fb findById_SomeD [OF fb] by (intro replace_doc_same) (simp add: findById_def)
  ultimately show ?thesis
    using vr pid fb fr val fixed
    by (simp add: updateReview_def Let_def save_valid)
qed

text \<open>
  C5. \<open>updateReview\<close> is idempotent: for every state, book id, user, rating and comment,
  the persisted state after two identical calls is the state after one, whether the
  first call changed a review of the user or added one.
\<close>

theorem updateReview_idempotent:
  "fst (updateReview (fst (updateReview s ps uid body)) ps uid body) =
   fst (updateReview s ps uid body)"
proof -
  obtain errors body' where vr: "validateReview body = (errors, body')"
    by (cases "validateReview body")
  let ?P = "\<lambda>review. user review = uid"
  let ?f = "\<lambda>review. review\<lparr>rating := number_of (b_rating body'),
                               comment := trim (text_of (b_comment body'))\<rparr>"
  let ?U = "\<lambda>t. fst (updateReview t ps uid body)"
  have "?U s = s \<or>
      (\<exists>i book x. errors = [] \<and> p_id ps = Some i \<and> findById s i = Some book \<and>
         find ?P (reviews book) = Some x \<and>
         validate (book\<lparr>reviews := update_first ?P ?f (reviews book)\<rparr>)) \<or>
      (\<exists>i book. errors = [] \<and> p_id ps = Some i \<and> findById s i = Some book \<and>
         find ?P (reviews book) = None \<and>
         validate (book\<lparr>reviews := reviews book @ [new_review (next_id s) uid body']\<rparr>))"
    by (simp add: updateReview_def vr Let_def save_def split: option.splits)
  then consider (unchanged) "?U s = s"
    | (updated) i book x where "errors = []" "p_id ps = Some i" "findById s i = Some book"
        "find ?P (reviews book) = Some x"
        "validate (book\<lparr>reviews := update_first ?P ?f (reviews book)\<rparr>)"
    | (added) i book where "errors = []" "p_id ps = Some i" "findById s i = Some book"
        "find ?P (reviews book) = None"
        "validate (book\<lparr>reviews := reviews book @ [new_review (next_id s) uid body']\<rparr>)"
    by blast
  then show ?thesis
  proof cases
    case unchanged
    then show ?thesis by simp
  next
    case updated
    let ?b1 = "book\<lparr>reviews := update_first ?P ?f (reviews book)\<rparr>"
    let ?s2 = "s\<lparr>books := replace_doc (updateRating ?b1) (books s)\<rparr>"
    from findById_SomeD [OF updated(3)] have bi: "bid book = i" by simp
    have once: "?U s = ?s2"
      using updated by (simp add: updateReview_def vr Let_def save_valid)
    have "?U ?s2 = ?s2"
    proof (rule updateReview_settled)
      show "validateReview body = ([], body')" using vr updated(1) by simp
      show "p_id ps = Some i" by fact
      show "findById ?s2 i = Some (updateRating ?b1)"
        by (simp add: findById_saved updateRating_fields bi)
      show "find ?P (reviews (updateRating ?b1)) = Some (?f x)"
        using find_update_first [OF updated(4), of ?f] find_holds [OF updated(4)]
        by (simp add: updateRating_fields)
      show "?f (?f x) = ?f x" by simp
      show "validate (updateRating ?b1)" using updated(5) by (rule validate_saved)
      show "updateRating (updateRating ?b1) = updateRating ?b1" by (rule updateRating_idem)
    qed
    then show ?thesis by (simp only: once)
  next
    case added
    let ?nr = "new_review (next_id s) uid body'"
    let ?b1 = "book\<lparr>reviews := reviews book @ [?nr]\<rparr>"
    let ?s2 = "s\<lparr>next_id := Suc (next_id s), books := replace_doc (updateRating ?b1) (books s)\<rparr>"
    from findById_SomeD [OF added(3)] have bi: "bid book = i" by simp
    have once: "?U s = ?s2"
      using added by (simp add: updateReview_def vr Let_def save_valid)
    have none: "\<forall>r\<in>set (reviews book). \<not> ?P r"
      using added(4) by (simp add: find_None_iff)
    have "?U ?s2 = ?s2"
    proof (rule updateReview_settled)
      show "validateReview body = ([], body')" using vr added(1) by simp
      show "p_id ps = Some i" by fact
      show "findById ?s2 i = Some (updateRating ?b1)"
        using findById_saved [where s = "s\<lparr>next_id := Suc (next_id s)\<rparr>"
            and b = "updateRating ?b1" and j = i]
        by (simp add: updateRating_fields bi)
      show "find ?P (reviews (updateRating ?b1)) = Some ?nr"
        using none by (simp add: updateRating_fields find_append_last new_review_def)
      show "?f ?nr = ?nr" by (simp add: new_review_def)
      show "validate (updateRating ?b1)" using added(5) by (rule validate_saved)
      show "updateRating (updateRating ?b1) = updateRating ?b1" by (rule updateRating_idem)
    qed
    then show ?thesis by (simp only: once)
  qed
qed

theorem updateReview_idempotent_witness:
  "fst (updateReview (fst (updateReview emma_state \<lparr>p_id = Some 0, p_reviewId = None\<rparr> 7 five_stars))
         \<lparr>p_id = Some 0, p_reviewId = None\<rparr> 7 five_stars) = reviewed_state"
  using updateReview_idempotent [of emma_state "\<lparr>p_id = Some 0, p_reviewId = None\<rparr>" 7 five_stars]
  by (simp add: reviewed_state_eq emma_state_eq five_stars_def run_defs)

section \<open>One review per user\<close>

lemma addReview_rejects_duplicate:
  assumes "findById s i = Some book" "p_id ps = Some i"
    "find (\<lambda>review. user review = uid) (reviews book) = Some x"
    "fst (validateReview body) = []"
  shows "addReview s ps uid body = (s, (400, Message ''You have already reviewed this book''))"
  using assms by (cases "validateReview body") (simp add: addReview_def)

lemma one_review_per_user_saved:
  assumes "list_all one_review_per_user (books s)" "save t b = Some (s', b')"
    "books t = books s" "distinct (map user (reviews b))"
  shows "list_all one_review_per_user (books s')"
  using save_SomeD [OF assms(2)] assms(1,3,4)
  by (simp add: list_all_replace_doc one_review_per_user_def updateRating_fields)

lemma map_user_update_first:
  "map user (update_first P (\<lambda>review. review\<lparr>rating := r, comment := c\<rparr>) xs) = map user xs"
  by (induction xs) auto

lemma one_review_per_user_kept:
  assumes "list_all one_review_per_user (books s)"
  shows "list_all one_review_per_user (books (fst (addReview s ps uid body)))"
    and "list_all one_review_per_user (books (fst (updateReview s ps uid body)))"
    and "list_all one_review_per_user (books (fst (deleteReview lib s ps uid)))"
proof -
  have stored: "distinct (map user (reviews book))" if "findById s i = Some book" for i book
    using findById_SomeD [OF that] assms by (auto simp: list_all_iff one_review_per_user_def)
  have pushed: "list_all one_review_per_user (books s2)"
    if "findById s i = Some book" "find (\<lambda>review. user review = uid) (reviews book) = None"
      "save (s\<lparr>next_id := n\<rparr>) (book\<lparr>reviews := reviews book @ [new_review m uid b]\<rparr>) =
         Some (s2, b2)"
    for i book n m b s2 b2
    using stored [OF that(1)] that(2)
    by (intro one_review_per_user_saved [OF assms that(3)])
      (auto simp: find_None_iff new_review_def)
  have updated: "list_all one_review_per_user (books s2)"
    if "findById s i = Some book"
      "save s (book\<lparr>reviews := update_first P
          (\<lambda>review. review\<lparr>rating := r, comment := c\<rparr>) (reviews book)\<rparr>) = Some (s2, b2)"
    for i book P r c s2 b2
    using stored [OF that(1)]
    by (intro one_review_per_user_saved [OF assms that(2)])
      (simp_all add: map_user_update_first)
  have deleted: "list_all one_review_per_user (books s2)"
    if "findById s i = Some book"
      "save s (book\<lparr>reviews := filter P (reviews book)\<rparr>) = Some (s2, b2)"
    for i book P s2 b2
    using stored [OF that(1)]
    by (intro one_review_per_user_saved [OF assms that(2)])
      (simp_all add: distinct_map_filter)
  show "list_all one_review_per_user (books (fst (addReview s ps uid body)))"
    using assms
    by (auto simp: addReview_def Let_def split: prod.splits option.splits dest: pushed)
  show "list_all one_review_per_user (books (fst (updateReview s ps uid body)))"
    using assms
    by (auto simp: updateReview_def Let_def split: prod.splits option.splits
        dest: pushed updated)
  show "list_all one_review_per_user (books (fst (deleteReview lib s ps uid)))"
    using assms
    by (auto simp: deleteReview_def subdocument_remove_def Let_def
        split: prod.splits option.splits mongoose.splits dest: deleted)
qed

text \<open>
  C3. At most one review per book and user. \<open>addReview\<close> refuses a second review of a
  user (\<open>addReview_rejects_duplicate\<close>) and the three review operations keep the
  property (\<open>one_review_per_user_kept\<close>), but \<open>createBook\<close> hands the whole request
  body to \<open>new Book\<close>: a create request that carries two reviews of user 7 is answered
  with 201, and the book is persisted with both.
\<close>

theorem createBook_stores_two_reviews_of_one_user:
  "createBook empty_state 5 twice_reviewed_body =
     (\<lparr>books = [\<lparr>bid = 0, title = ''Emma'', author = ''Jane Austen'', genre = ''Novel'',
         description = ''A novel'',
         reviews = [\<lparr>rid = 1, user = 7, rating = 5, comment = ''fine''\<rparr>,
                    \<lparr>rid = 2, user = 7, rating = 1, comment = ''poor''\<rparr>],
         averageRating = 3, totalReviews = 2, createdAt = 5\<rparr>], next_id = 3\<rparr>,
      (201, Doc \<lparr>bid = 0, title = ''Emma'', author = ''Jane Austen'', genre = ''Novel'',
         description = ''A novel'',
         reviews = [\<lparr>rid = 1, user = 7, rating = 5, comment = ''fine''\<rparr>,
                    \<lparr>rid = 2, user = 7, rating = 1, comment = ''poor''\<rparr>],
         averageRating = 3, totalReviews = 2, createdAt = 5\<rparr>)) \<and>
   reachable (fst (createBook empty_state 5 twice_reviewed_body)) \<and>
   \<not> list_all one_review_per_user (books (fst (createBook empty_state 5 twice_reviewed_body)))"
proof -
  have run: "createBook empty_state 5 twice_reviewed_body =
     (\<lparr>books = [\<lparr>bid = 0, title = ''Emma'', author = ''Jane Austen'', genre = ''Novel'',
         description = ''A novel'',
         reviews = [\<lparr>rid = 1, user = 7, rating = 5, comment = ''fine''\<rparr>,
                    \<lparr>rid = 2, user = 7, rating = 1, comment = ''poor''\<rparr>],
         averageRating = 3, totalReviews = 2, createdAt = 5\<rparr>], next_id = 3\<rparr>,
      (201, Doc \<lparr>bid = 0, title = ''Emma'', author = ''Jane Austen'', genre = ''Novel'',
         description = ''A novel'',
         reviews = [\<lparr>rid = 1, user = 7, rating = 5, comment = ''fine''\<rparr>,
                    \<lparr>rid = 2, user = 7, rating = 1, comment = ''poor''\<rparr>],
         averageRating = 3, totalReviews = 2, createdAt = 5\<rparr>))"
    by (simp add: twice_reviewed_body_def run_defs upt_rec [of "Suc 0" "Suc (Suc (Suc 0))"]
        upt_rec [of "Suc (Suc 0)" "Suc (Suc (Suc 0))"])
  have "reachable (fst (createBook empty_state 5 twice_reviewed_body))"
    by (intro reachable.intros)
  then show ?thesis
    by (simp add: run one_review_per_user_def)
qed

section \<open>The routes of the review operations\<close>

text \<open>
  C9. The router as registered: neither \<open>PUT /books/:id/reviews/:reviewId\<close> nor
  \<open>DELETE /books/:id/reviews/:reviewId\<close> reaches a controller. Update is registered at
  the literal path \<open>/books/reviews/bookId\<close>, which binds no parameter, and delete at
  \<open>/books/:id\<close>, which binds the book id only.
\<close>

theorem review_routes_as_registered:
  "books_app PUT [''books'', b, ''reviews'', r] = None \<and>
   books_app DELETE [''books'', b, ''reviews'', r] = None \<and>
   books_app PUT [''books'', ''reviews'', ''bookId''] = Some (UpdateReview, []) \<and>
   books_app DELETE [''books'', b] = Some (DeleteReview, [(''id'', b)])"
  by (simp add: books_app_def book_routes_def toLowerCase_def)

text \<open>
  With the parameters these two routes bind, \<open>updateReview\<close> never finds a book id and
  \<open>deleteReview\<close> never finds a review id: neither changes the state.
\<close>

lemma registered_review_routes_change_nothing:
  "fst (updateReview s \<lparr>p_id = None, p_reviewId = None\<rparr> uid body) = s"
  "fst (snd (updateReview s \<lparr>p_id = None, p_reviewId = None\<rparr> uid body)) = 400"
  "fst (deleteReview lib s \<lparr>p_id = Some i, p_reviewId = None\<rparr> uid) = s"
  "fst (snd (deleteReview lib s \<lparr>p_id = Some i, p_reviewId = None\<rparr> uid)) = 404"
  by (simp_all add: updateReview_def deleteReview_def split: prod.splits option.splits)

section \<open>Listing with filters and pages\<close>

lemmas parse_defs = parseInt_def StrWhiteSpaceChar_def is_digit_of_def digit_value_def
  digits_value_def param_text_def or_default_def units_def Let_def

lemma parseInt_undefined: "parseInt (units ''undefined'') = None"
  by (simp add: parse_defs)

lemma decimal_digit: "is_digit_of 10 c = is_decimal_digit c"
  by (auto simp: is_digit_of_def digit_value_def is_decimal_digit_def)

lemma hex_digit: "is_digit_of 16 c = is_hex_digit c"
  by (auto simp: is_digit_of_def digit_value_def is_hex_digit_def is_decimal_digit_def)

lemma strip_sign:
  "(case S of [] \<Rightarrow> S | c # cs \<Rightarrow> if c = 0x2B \<or> c = 0x2D then cs else S) =
   (case S of [] \<Rightarrow> [] | c # cs \<Rightarrow> if c = 0x2B \<or> c = 0x2D then cs else c # cs)"
  by (cases S) simp_all

lemma no_digits_iff:
  "(takeWhile (is_digit_of (if take 2 S = [0x30, 0x78] \<or> take 2 S = [0x30, 0x58] then 16 else 10))
      (if take 2 S = [0x30, 0x78] \<or> take 2 S = [0x30, 0x58] then drop 2 S else S) = []) =
   (\<not> begins_with_number S)"
  by (induction S rule: begins_with_number.induct)
    (auto simp: decimal_digit hex_digit takeWhile_eq_Nil_iff split: list.splits)

text \<open>The texts that are not numeric are exactly those that \<open>parseInt\<close> reads as \<open>NaN\<close>.\<close>

lemma non_numeric_iff: "non_numeric t \<longleftrightarrow> parseInt t = None"
proof -
  have "(parseInt t = None) =
     (takeWhile (is_digit_of (if take 2 (after_sign t) = [0x30, 0x78] \<or>
                                 take 2 (after_sign t) = [0x30, 0x58] then 16 else 10))
        (if take 2 (after_sign t) = [0x30, 0x78] \<or> take 2 (after_sign t) = [0x30, 0x58]
         then drop 2 (after_sign t) else after_sign t) = [])"
    unfolding parseInt_def Let_def strip_sign after_sign_def
    by (simp only: if_split option.simps simp_thms split: if_splits)
  then show ?thesis
    by (simp only: non_numeric_def no_digits_iff)
qed


text \<open>
  A no-break space in front of a number is skipped, so such a parameter is read and not
  defaulted; the prefix \<open>0x\<close> with no digit after it is not a number.
\<close>

lemma parseInt_examples:
  "parseInt [0xA0, 0x32] = Some 2"
  "parseInt [0xFEFF, 0x2D, 0x33] = Some (- 3)"
  "parseInt (units ''0x'') = None"
  "parseInt (units ''0x1f'') = Some 31"
  "parseInt (units '' 12px'') = Some 12"
  "\<not> defaulted (Some [0xA0, 0x32])"
  "defaulted (Some (units ''0x''))"
  "defaulted (Some (units ''-0''))"
  by (simp_all add: defaulted_def non_numeric_iff parse_defs)

lemma getAllBooks_ok:
  assumes "build_query re q = Some ok" "0 \<le> (page_of q - 1) * limit_of q"
  shows "getAllBooks re s q =
     (200, Listing
        (take (nat \<bar>limit_of q\<bar>)
           (drop (nat ((page_of q - 1) * limit_of q)) (newest_first (filter ok (books s)))))
        (page_of q)
        \<lceil>real (length (filter ok (books s))) / real_of_int (limit_of q)\<rceil>
        (length (filter ok (books s))))"
  using assms by (simp add: getAllBooks_def Let_def)




lemma set_newest_first: "set (newest_first bs) = set bs"
  by (simp add: newest_first_def)

lemma length_newest_first: "length (newest_first bs) = length bs"
  by (simp add: newest_first_def)

lemma newest_shelf:
  "newest_first (books shelf) =
        [\<lparr>bid = 2, title = ''Animal Farm'', author = ''George Orwell'', genre = ''Satire'',
          description = ''A fable'', reviews = [], averageRating = 0, totalReviews = 0,
          createdAt = 30\<rparr>,
         \<lparr>bid = 3, title = ''Orlando'', author = ''Virginia Woolf'', genre = ''Novel'',
          description = ''A biography'', reviews = [], averageRating = 0, totalReviews = 0,
          createdAt = 20\<rparr>,
         \<lparr>bid = 0, title = ''Emma'', author = ''Jane Austen'', genre = ''Novel'',
          description = ''A novel'', reviews = [], averageRating = 0, totalReviews = 0,
          createdAt = 10\<rparr>]"
  by (simp add: shelf_def newest_first_def)

lemma dot_query:
  "build_query dot_RegExp
     \<lparr>q_page = None, q_limit = None, q_author = Some ''.'', q_genre = None\<rparr> =
   Some (\<lambda>b. dot_search ''.'' (author b))"
  by (simp add: build_query_def field_filter_def dot_RegExp_def syntax_characters_def)

lemma dot_matches_all: "filter (\<lambda>b. dot_search ''.'' (author b)) (books shelf) = books shelf"
  by (simp add: shelf_def)

text \<open>
  C7. \<open>list\<close> is to filter by case-insensitive partial match on \<open>author\<close> and \<open>genre\<close>.
  The controller hands the filter text to \<open>new RegExp\<close> as it comes, so the text is read
  as a pattern and not as a text to be found. On the shelf of three books, none of whose
  authors contains a dot, the filter \<open>author=.\<close> lists every book, and the filter
  \<open>author=(\<close> is answered with 500.
\<close>

theorem getAllBooks_takes_filter_for_pattern:
  "getAllBooks dot_RegExp shelf
      \<lparr>q_page = None, q_limit = None, q_author = Some ''.'', q_genre = None\<rparr> =
     (200, Listing
        [\<lparr>bid = 2, title = ''Animal Farm'', author = ''George Orwell'', genre = ''Satire'',
          description = ''A fable'', reviews = [], averageRating = 0, totalReviews = 0,
          createdAt = 30\<rparr>,
         \<lparr>bid = 3, title = ''Orlando'', author = ''Virginia Woolf'', genre = ''Novel'',
          description = ''A biography'', reviews = [], averageRating = 0, totalReviews = 0,
          createdAt = 20\<rparr>,
         \<lparr>bid = 0, title = ''Emma'', author = ''Jane Austen'', genre = ''Novel'',
          description = ''A novel'', reviews = [], averageRating = 0, totalReviews = 0,
          createdAt = 10\<rparr>] 1 1 3) \<and>
   \<not> ci_contains ''.'' ''George Orwell'' \<and>
   \<not> ci_contains ''.'' ''Virginia Woolf'' \<and>
   \<not> ci_contains ''.'' ''Jane Austen'' \<and>
   getAllBooks dot_RegExp shelf
      \<lparr>q_page = None, q_limit = None, q_author = Some ''('', q_genre = None\<rparr> =
     (500, Failure ''Error fetching books'')"
proof -
  let ?q = "\<lparr>q_page = None, q_limit = None, q_author = Some ''.'', q_genre = None\<rparr>"
  have pg: "page_of ?q = 1" and lm: "limit_of ?q = 10"
    by (simp_all add: page_of_def limit_of_def param_text_def or_default_def parseInt_undefined)
  have skip: "0 \<le> (page_of ?q - 1) * limit_of ?q" by (simp add: pg lm)
  have len: "length (books shelf) = 3" by (simp add: shelf_def)
  have "getAllBooks dot_RegExp shelf ?q = (200, Listing (newest_first (books shelf)) 1 1 3)"
    by (simp add: getAllBooks_ok [OF dot_query skip] dot_matches_all pg lm len
        length_newest_first)
  moreover have "\<not> ci_contains ''.'' ''George Orwell''"
    "\<not> ci_contains ''.'' ''Virginia Woolf''" "\<not> ci_contains ''.'' ''Jane Austen''"
    by (simp_all add: toLowerCase_def)
  moreover have "getAllBooks dot_RegExp shelf
      \<lparr>q_page = None, q_limit = None, q_author = Some ''('', q_genre = None\<rparr> =
     (500, Failure ''Error fetching books'')"
    by (simp add: getAllBooks_def build_query_def field_filter_def dot_RegExp_def
        syntax_characters_def Let_def)
  ultimately show ?thesis by (simp only: newest_shelf simp_thms)
qed



section \<open>Text search\<close>

lemma sorted_by_score:
  "sorted_wrt (\<lambda>a b. f b \<le> f a) (sort_key (\<lambda>b. - f b) xs)" for f :: "'a \<Rightarrow> real"
  using sorted_sort_key [of "\<lambda>b. - f b" xs] by (simp add: sorted_map)

lemma take_is_top:
  assumes "sorted_wrt P xs" "a \<in> set (take n xs)" "b \<in> set xs" "b \<notin> set (take n xs)"
  shows "P a b"
proof -
  have "b \<in> set (drop n xs)"
    using assms(3,4) set_append [of "take n xs" "drop n xs"] by simp
  moreover have "sorted_wrt P (take n xs @ drop n xs)" using assms(1) by simp
  ultimately show ?thesis using assms(2) by (auto simp only: sorted_wrt_append)
qed

lemma or_hits:
  "filter (\<lambda>b. sample_index ''or'' (title b) (author b) \<noteq> None) (books shelf) =
        [\<lparr>bid = 2, title = ''Animal Farm'', author = ''George Orwell'', genre = ''Satire'',
          description = ''A fable'', reviews = [], averageRating = 0, totalReviews = 0,
          createdAt = 30\<rparr>,
         \<lparr>bid = 3, title = ''Orlando'', author = ''Virginia Woolf'', genre = ''Novel'',
          description = ''A biography'', reviews = [], averageRating = 0, totalReviews = 0,
          createdAt = 20\<rparr>]"
  by (simp add: shelf_def sample_index_def toLowerCase_def)

lemma or_scores:
  "score_of sample_index ''or''
        \<lparr>bid = 2, title = ''Animal Farm'', author = ''George Orwell'', genre = ''Satire'',
          description = ''A fable'', reviews = [], averageRating = 0, totalReviews = 0,
          createdAt = 30\<rparr> = 1"
  "score_of sample_index ''or''
         \<lparr>bid = 3, title = ''Orlando'', author = ''Virginia Woolf'', genre = ''Novel'',
          description = ''A biography'', reviews = [], averageRating = 0, totalReviews = 0,
          createdAt = 20\<rparr> = 2"
  by (simp_all add: score_of_def sample_index_def toLowerCase_def)

text \<open>
  C8. \<open>search\<close> answers 400 ("Search query is required") exactly when the query is absent
  or empty. Otherwise it answers with at most 10 books, all of them matched by the text
  index on title and author, in the order of descending relevance, and no matching book
  left out is more relevant than one returned.
\<close>

theorem searchBooks_answers:
  "(fst (searchBooks textScore s query) = 400 \<longleftrightarrow> query = None \<or> query = Some []) \<and>
   (query = None \<or> query = Some [] \<longrightarrow>
      searchBooks textScore s query = (400, Message ''Search query is required'')) \<and>
   (\<forall>q. query = Some q \<and> q \<noteq> [] \<longrightarrow>
      (\<exists>found. searchBooks textScore s query = (200, Docs found) \<and>
         length found \<le> 10 \<and>
         length found =
           min 10 (length (filter (\<lambda>b. textScore q (title b) (author b) \<noteq> None) (books s))) \<and>
         set found \<subseteq> {b \<in> set (books s). textScore q (title b) (author b) \<noteq> None} \<and>
         sorted_wrt (\<lambda>a b. score_of textScore q b \<le> score_of textScore q a) found \<and>
         (\<forall>a\<in>set found. \<forall>b\<in>set (books s).
            textScore q (title b) (author b) \<noteq> None \<and> b \<notin> set found \<longrightarrow>
            score_of textScore q b \<le> score_of textScore q a)))"
proof -
  have hit: "\<exists>found. searchBooks textScore s (Some q) = (200, Docs found) \<and>
         length found \<le> 10 \<and>
         length found =
           min 10 (length (filter (\<lambda>b. textScore q (title b) (author b) \<noteq> None) (books s))) \<and>
         set found \<subseteq> {b \<in> set (books s). textScore q (title b) (author b) \<noteq> None} \<and>
         sorted_wrt (\<lambda>a b. score_of textScore q b \<le> score_of textScore q a) found \<and>
         (\<forall>a\<in>set found. \<forall>b\<in>set (books s).
            textScore q (title b) (author b) \<noteq> None \<and> b \<notin> set found \<longrightarrow>
            score_of textScore q b \<le> score_of textScore q a)"
    if "q \<noteq> []" for q
  proof -
    let ?hits = "filter (\<lambda>b. textScore q (title b) (author b) \<noteq> None) (books s)"
    let ?ranked = "sort_key (\<lambda>b. - score_of textScore q b) ?hits"
    let ?found = "take 10 ?ranked"
    have srt: "sorted_wrt (\<lambda>a b. score_of textScore q b \<le> score_of textScore q a) ?ranked"
      by (rule sorted_by_score)
    have "searchBooks textScore s (Some q) = (200, Docs ?found)"
      using that by (simp add: searchBooks_def)
    moreover have "length ?found \<le> 10" by simp
    moreover have "length ?found = min 10 (length ?hits)" by (simp add: min.commute)
    moreover have "set ?found \<subseteq> {b \<in> set (books s). textScore q (title b) (author b) \<noteq> None}"
      using set_take_subset [of 10 ?ranked] by auto
    moreover have "sorted_wrt (\<lambda>a b. score_of textScore q b \<le> score_of textScore q a) ?found"
      using srt by (rule sorted_wrt_take)
    moreover have "\<forall>a\<in>set ?found. \<forall>b\<in>set (books s).
            textScore q (title b) (author b) \<noteq> None \<and> b \<notin> set ?found \<longrightarrow>
            score_of textScore q b \<le> score_of textScore q a"
    proof (intro ballI impI)
      fix a b
      assume a: "a \<in> set ?found" and b: "b \<in> set (books s)"
        and "textScore q (title b) (author b) \<noteq> None \<and> b \<notin> set ?found"
      then have "b \<in> set ?ranked" "b \<notin> set ?found" by simp_all
      with srt a show "score_of textScore q b \<le> score_of textScore q a"
        by (rule take_is_top)
    qed
    ultimately show ?thesis by blast
  qed
  have "fst (searchBooks textScore s query) = 400 \<longleftrightarrow> query = None \<or> query = Some []"
    by (cases query) (simp_all add: searchBooks_def)
  moreover have "query = None \<or> query = Some [] \<longrightarrow>
      searchBooks textScore s query = (400, Message ''Search query is required'')"
    by (auto simp: searchBooks_def)
  ultimately show ?thesis using hit by blast
qed


theorem searchBooks_answers_witness:
  "searchBooks sample_index shelf (Some ''or'') =
     (200, Docs
        [\<lparr>bid = 3, title = ''Orlando'', author = ''Virginia Woolf'', genre = ''Novel'',
          description = ''A biography'', reviews = [], averageRating = 0, totalReviews = 0,
          createdAt = 20\<rparr>,
         \<lparr>bid = 2, title = ''Animal Farm'', author = ''George Orwell'', genre = ''Satire'',
          description = ''A fable'', reviews = [], averageRating = 0, totalReviews = 0,
          createdAt = 30\<rparr>]) \<and>
   searchBooks sample_index shelf (Some []) = (400, Message ''Search query is required'') \<and>
   searchBooks sample_index shelf None = (400, Message ''Search query is required'')"
proof -
  have "searchBooks sample_index shelf (Some ''or'') =
     (200, Docs
        [\<lparr>bid = 3, title = ''Orlando'', author = ''Virginia Woolf'', genre = ''Novel'',
          description = ''A biography'', reviews = [], averageRating = 0, totalReviews = 0,
          createdAt = 20\<rparr>,
         \<lparr>bid = 2, title = ''Animal Farm'', author = ''George Orwell'', genre = ''Satire'',
          description = ''A fable'', reviews = [], averageRating = 0, totalReviews = 0,
          createdAt = 30\<rparr>])"
  proof -
    have "searchBooks sample_index shelf (Some ''or'') =
      (200, Docs (take 10 (sort_key (\<lambda>b. - score_of sample_index ''or'' b)
         (filter (\<lambda>b. sample_index ''or'' (title b) (author b) \<noteq> None) (books shelf)))))"
      by (simp add: searchBooks_def)
    then show ?thesis unfolding or_hits by (simp add: or_scores)
  qed
  then show ?thesis
    using searchBooks_answers [of sample_index shelf "Some ''or''"]
      searchBooks_answers [of sample_index shelf "Some []"]
      searchBooks_answers [of sample_index shelf None]
    by simp
qed

end
